theory Spec2Isabelle
  imports Complex_Main "HOL-Library.Sublist"
begin

section \<open>Values\<close>

text \<open>
  The handler of \<^verbatim>\<open>src/rp_handler.py\<close> works on decoded JSON: the job, the
  workflow, the reply of \<^verbatim>\<open>POST /prompt\<close> and the replies of
  \<^verbatim>\<open>GET /history/<id>\<close>. A Python \<^verbatim>\<open>dict\<close> is an association list in insertion
  order, read with \<open>map_of\<close>; a \<^verbatim>\<open>str\<close> is a list of characters, each standing for
  one code point below 256. Numbers are integers or rationals (the values NaN and
  Infinity, which are not JSON, are left out).
\<close>

datatype json =
    JNull
  | JBool bool
  | JInt int
  | JFloat rat
  | JStr string
  | JArr "json list"
  | JObj "(string \<times> json) list"

text \<open>
  The exceptions that the interpreter and the standard library raise, and \<open>Failure\<close>
  for an exception that a collaborator raises (transport errors, storage or classifier
  errors), named by a tag. All of them derive from \<^verbatim>\<open>Exception\<close>.
  \<^verbatim>\<open>json.JSONDecodeError\<close> is a class of its own below \<^verbatim>\<open>ValueError\<close>: a handler for it
  does not catch a plain \<^verbatim>\<open>ValueError\<close>.
\<close>

datatype exn =
    KeyError json
  | TypeError
  | AttributeError
  | IndexError
  | ValueError
  | OverflowError
  | OSError
  | RecursionError
  | JSONDecodeError
  | Failure string

subsection \<open>Strings\<close>

definition isspace :: "char \<Rightarrow> bool" where
  "isspace c =
     (let n = (of_char c :: nat)
      in (9 \<le> n \<and> n \<le> 13) \<or> (28 \<le> n \<and> n \<le> 32) \<or> n = 133 \<or> n = 160)"

definition lower_char :: "char \<Rightarrow> char" where
  "lower_char c =
     (let n = (of_char c :: nat)
      in if (65 \<le> n \<and> n \<le> 90) \<or> (192 \<le> n \<and> n \<le> 222 \<and> n \<noteq> 215)
         then char_of (n + 32) else c)"

definition lower :: "string \<Rightarrow> string" where
  "lower s = map lower_char s"

definition strip :: "string \<Rightarrow> string" where
  "strip s = rev (dropWhile isspace (rev (dropWhile isspace s)))"

text \<open>\<^verbatim>\<open>t in s\<close> for two strings: \<open>t\<close> occurs in \<open>s\<close> as a contiguous run.\<close>

fun str_contains :: "string \<Rightarrow> string \<Rightarrow> bool" where
  "str_contains t [] = (t = [])"
| "str_contains t (c # s) = (prefix t (c # s) \<or> str_contains t s)"

subsection \<open>Dictionary reads\<close>

text \<open>\<^verbatim>\<open>d.get(k)\<close> on a dict: the value, or \<^verbatim>\<open>None\<close> for an absent key.\<close>

definition dict_get :: "(string \<times> json) list \<Rightarrow> string \<Rightarrow> json" where
  "dict_get d k = (case map_of d k of None \<Rightarrow> JNull | Some v \<Rightarrow> v)"

text \<open>\<^verbatim>\<open>d[k]\<close> on a dict: the value, or \<^verbatim>\<open>KeyError\<close> for an absent key.\<close>

definition dict_item :: "(string \<times> json) list \<Rightarrow> string \<Rightarrow> exn + json" where
  "dict_item d k = (case map_of d k of None \<Rightarrow> Inl (KeyError (JStr k)) | Some v \<Rightarrow> Inr v)"


subsection \<open>Operations on values\<close>

text \<open>Truth value of a value, as \<^verbatim>\<open>if v:\<close> and \<^verbatim>\<open>a and b\<close> read it.\<close>

fun truthy :: "json \<Rightarrow> bool" where
  "truthy JNull = False"
| "truthy (JBool b) = b"
| "truthy (JInt i) = (i \<noteq> 0)"
| "truthy (JFloat r) = (r \<noteq> 0)"
| "truthy (JStr s) = (s \<noteq> [])"
| "truthy (JArr xs) = (xs \<noteq> [])"
| "truthy (JObj d) = (d \<noteq> [])"

text \<open>
  \<^verbatim>\<open>x == y\<close>: booleans, integers and floats compare by numeric value (\<^verbatim>\<open>True == 1\<close>),
  lists element by element, dicts as mappings whatever the order of their keys.
\<close>

fun num_val :: "json \<Rightarrow> rat option" where
  "num_val (JBool b) = Some (if b then 1 else 0)"
| "num_val (JInt i) = Some (of_int i)"
| "num_val (JFloat r) = Some r"
| "num_val _ = None"

fun py_eq :: "json \<Rightarrow> json \<Rightarrow> bool"
  and py_eq_list :: "json list \<Rightarrow> json list \<Rightarrow> bool"
  and py_eq_items :: "(string \<times> json) list \<Rightarrow> (string \<times> json) list \<Rightarrow> bool"
where
  "py_eq JNull y = (y = JNull)"
| "py_eq (JBool b) y = (num_val y = Some (if b then 1 else 0))"
| "py_eq (JInt i) y = (num_val y = Some (of_int i))"
| "py_eq (JFloat r) y = (num_val y = Some r)"
| "py_eq (JStr s) y = (y = JStr s)"
| "py_eq (JArr xs) y = (case y of JArr ys \<Rightarrow> py_eq_list xs ys | _ \<Rightarrow> False)"
| "py_eq (JObj a) y =
     (case y of JObj b \<Rightarrow> length a = length b \<and> py_eq_items a b | _ \<Rightarrow> False)"
| "py_eq_list [] ys = (ys = [])"
| "py_eq_list (x # xs) ys =
     (case ys of [] \<Rightarrow> False | y # ys' \<Rightarrow> py_eq x y \<and> py_eq_list xs ys')"
| "py_eq_items [] b = True"
| "py_eq_items (kv # a) b =
     ((case map_of b (fst kv) of None \<Rightarrow> False | Some v \<Rightarrow> py_eq (snd kv) v)
      \<and> py_eq_items a b)"

text \<open>Lists and dicts cannot be dict keys: looking one up raises \<^verbatim>\<open>TypeError\<close>.\<close>

fun hashable :: "json \<Rightarrow> bool" where
  "hashable (JArr xs) = False"
| "hashable (JObj d) = False"
| "hashable v = True"

text \<open>\<^verbatim>\<open>x in c\<close>. The keys of a decoded JSON object are strings.\<close>

definition py_contains :: "json \<Rightarrow> json \<Rightarrow> exn + bool" where
  "py_contains x c =
     (case c of
        JObj d \<Rightarrow>
          (if \<not> hashable x then Inl TypeError
           else Inr (case x of JStr k \<Rightarrow> map_of d k \<noteq> None | _ \<Rightarrow> False))
      | JArr ys \<Rightarrow> Inr (list_ex (py_eq x) ys)
      | JStr s \<Rightarrow> (case x of JStr t \<Rightarrow> Inr (str_contains t s) | _ \<Rightarrow> Inl TypeError)
      | _ \<Rightarrow> Inl TypeError)"

text \<open>An index into a sequence: an integer or a boolean, negative ones counting from the end.\<close>

fun index_of :: "json \<Rightarrow> int option" where
  "index_of (JInt i) = Some i"
| "index_of (JBool b) = Some (if b then 1 else 0)"
| "index_of v = None"

definition seq_item :: "'a list \<Rightarrow> int \<Rightarrow> exn + 'a" where
  "seq_item xs i =
     (let n = int (length xs); j = (if i < 0 then i + n else i)
      in if 0 \<le> j \<and> j < n then Inr (xs ! nat j) else Inl IndexError)"

text \<open>\<^verbatim>\<open>c[x]\<close>.\<close>

definition py_getitem :: "json \<Rightarrow> json \<Rightarrow> exn + json" where
  "py_getitem c x =
     (case c of
        JObj d \<Rightarrow>
          (if \<not> hashable x then Inl TypeError
           else (case x of JStr k \<Rightarrow> dict_item d k | _ \<Rightarrow> Inl (KeyError x)))
      | JArr ys \<Rightarrow>
          (case index_of x of None \<Rightarrow> Inl TypeError | Some i \<Rightarrow> seq_item ys i)
      | JStr s \<Rightarrow>
          (case index_of x of
             None \<Rightarrow> Inl TypeError
           | Some i \<Rightarrow> (case seq_item s i of Inl e \<Rightarrow> Inl e | Inr ch \<Rightarrow> Inr (JStr [ch])))
      | _ \<Rightarrow> Inl TypeError)"

text \<open>\<^verbatim>\<open>v.get(k)\<close> and \<^verbatim>\<open>v.items()\<close>: only a dict has these methods.\<close>

definition py_get :: "json \<Rightarrow> string \<Rightarrow> exn + json" where
  "py_get v k = (case v of JObj d \<Rightarrow> Inr (dict_get d k) | _ \<Rightarrow> Inl AttributeError)"

definition py_items :: "json \<Rightarrow> exn + (string \<times> json) list" where
  "py_items v = (case v of JObj d \<Rightarrow> Inr d | _ \<Rightarrow> Inl AttributeError)"

text \<open>\<^verbatim>\<open>for x in v\<close>: the elements of a list, the keys of a dict, the characters of a string.\<close>

definition py_iter :: "json \<Rightarrow> exn + json list" where
  "py_iter v =
     (case v of
        JArr xs \<Rightarrow> Inr xs
      | JObj d \<Rightarrow> Inr (map (\<lambda>kv. JStr (fst kv)) d)
      | JStr s \<Rightarrow> Inr (map (\<lambda>ch. JStr [ch]) s)
      | _ \<Rightarrow> Inl TypeError)"

text \<open>\<^verbatim>\<open>d[k] = v\<close> on a dict: a present key keeps its place, a new key goes last.\<close>

fun dict_set :: "(string \<times> json) list \<Rightarrow> string \<Rightarrow> json \<Rightarrow> (string \<times> json) list" where
  "dict_set [] k v = [(k, v)]"
| "dict_set (p # ps) k v = (if fst p = k then (k, v) # ps else p # dict_set ps k v)"

subsection \<open>Base64\<close>

text \<open>\<^verbatim>\<open>base64.b64encode\<close> of the standard library (RFC 4648, with padding).\<close>

definition b64_alphabet :: string where
  "b64_alphabet = ''ABCDEFGHIJKLMNOPQRSTUVWXYZabcdefghijklmnopqrstuvwxyz0123456789+/''"

definition b64_digit :: "nat \<Rightarrow> char" where
  "b64_digit n = b64_alphabet ! (n mod 64)"

fun b64encode :: "char list \<Rightarrow> string" where
  "b64encode [] = []"
| "b64encode [a] =
     (let n = (of_char a :: nat) * 65536
      in [b64_digit (n div 262144), b64_digit (n div 4096), CHR ''='', CHR ''=''])"
| "b64encode [a, b] =
     (let n = (of_char a :: nat) * 65536 + of_char b * 256
      in [b64_digit (n div 262144), b64_digit (n div 4096), b64_digit (n div 64), CHR ''=''])"
| "b64encode (a # b # c # rest) =
     (let n = (of_char a :: nat) * 65536 + of_char b * 256 + of_char c
      in [b64_digit (n div 262144), b64_digit (n div 4096), b64_digit (n div 64), b64_digit n]
         @ b64encode rest)"

section \<open>The world outside the handler\<close>

text \<open>
  The handler talks to the rendering engine, the file system, the upload helper of the
  runpod library and the classifier. None of them is code of this repository, so each is
  a field of the environment: what the call returns, or the exception it raises. A reply
  may change from one call to the next, so the requests that the two retry loops repeat
  take the number of the attempt (from 0).

  \<^item> \<open>requests_get url i\<close>: attempt \<open>i\<close> of \<^verbatim>\<open>requests.get\<close> on the address of the
    engine, a response with its status code or a \<^verbatim>\<open>requests.RequestException\<close>. The
    handler only asks for the fixed address \<^verbatim>\<open>http://127.0.0.1:8188\<close>, which is well
    formed; \<open>check_server\<close> itself, on any address, is given the wider \<open>get_result\<close>;
  \<^item> \<open>json_loads s\<close>: \<^verbatim>\<open>json.loads(s)\<close>, the decoded value or the exception raised:
    \<open>JSONDecodeError\<close> for a text that is not JSON, but also \<open>ValueError\<close> (an integer of
    more digits than the interpreter converts) and \<open>RecursionError\<close> (nesting too deep);
  \<^item> \<open>post_prompt body\<close>: the decoded reply to \<^verbatim>\<open>POST /prompt\<close>, or the exception of
    \<^verbatim>\<open>urlopen\<close>, \<^verbatim>\<open>read\<close> or \<^verbatim>\<open>json.loads\<close>;
  \<^item> \<open>history_reply url i\<close>: the same for attempt \<open>i\<close> of \<^verbatim>\<open>GET /history/<id>\<close>;
  \<^item> \<open>path_exists\<close>, \<open>upload_image\<close>, \<open>detect\<close>, \<open>read_bytes\<close>: \<^verbatim>\<open>os.path.exists\<close>,
    \<^verbatim>\<open>rp_upload.upload_image\<close>, \<^verbatim>\<open>NudeDetector().detect\<close> and reading a file;
  \<^item> \<open>str_exc e\<close>: the text \<^verbatim>\<open>str(e)\<close> of an exception;
  \<^item> \<open>str_value v\<close>: the text \<^verbatim>\<open>str(v)\<close> of a number or of a non-empty list or dict.
\<close>

datatype get_outcome = Response int | RequestException

text \<open>
  What \<^verbatim>\<open>requests.get(url)\<close> does on an arbitrary address: one of the two outcomes above,
  or an exception that is not a \<^verbatim>\<open>RequestException\<close> (the URL parser of urllib3 raises
  its own \<^verbatim>\<open>LocationParseError\<close> on some malformed addresses).
\<close>

datatype get_result = Got get_outcome | OtherException exn

record env =
  requests_get :: "string \<Rightarrow> nat \<Rightarrow> get_outcome"
  json_loads :: "string \<Rightarrow> exn + json"
  post_prompt :: "json \<Rightarrow> exn + json"
  history_reply :: "string \<Rightarrow> nat \<Rightarrow> exn + json"
  path_exists :: "string \<Rightarrow> bool"
  upload_image :: "json \<Rightarrow> string \<Rightarrow> exn + string"
  detect :: "string \<Rightarrow> exn + json"
  read_bytes :: "string \<Rightarrow> exn + char list"
  str_exc :: "exn \<Rightarrow> string"
  str_value :: "json \<Rightarrow> string"

text \<open>What the handler does to the world, in order. Console output is not recorded.\<close>

datatype event =
    HttpGet string
  | Sleep int
  | HttpPost string json
  | HistoryGet string
  | PathExists string
  | Upload json string
  | Detect string
  | ReadFile string

text \<open>\<^verbatim>\<open>str(v)\<close>, as an f-string renders a value.\<close>

definition py_str :: "env \<Rightarrow> json \<Rightarrow> string" where
  "py_str env v =
     (case v of
        JStr s \<Rightarrow> s
      | JNull \<Rightarrow> ''None''
      | JBool b \<Rightarrow> (if b then ''True'' else ''False'')
      | JArr xs \<Rightarrow> (if xs = [] then ''[]'' else str_value env v)
      | JObj d \<Rightarrow> (if d = [] then ''{}'' else str_value env v)
      | _ \<Rightarrow> str_value env v)"

text \<open>
  \<^verbatim>\<open>time.sleep(ms / 1000)\<close> for an integer \<open>ms\<close>. The duration is converted to a signed
  64-bit count of nanoseconds: beyond \<open>SLEEP_MAX_MS\<close> milliseconds either way the
  conversion (or already the division, on an integer too large for a float) raises
  \<^verbatim>\<open>OverflowError\<close>. A negative duration that converts raises \<^verbatim>\<open>ValueError\<close>.

  A duration that is accepted so far is added to the reading of the monotonic clock,
  itself a signed 64-bit count of nanoseconds since the start of the machine, and the
  platform refuses a deadline past the end of that clock with \<^verbatim>\<open>OSError\<close>
  (\<^verbatim>\<open>EINVAL\<close>). The model reads the clock at \<open>MONOTONIC_MS\<close>, one hundred years of
  running: a sleep that succeeds in the model succeeds on every machine that has run
  for less, and the longest of them lasts \<open>SLEEP_OK_MS\<close> milliseconds.
\<close>

definition SLEEP_MAX_MS :: int where
  "SLEEP_MAX_MS = 9223372036854"

definition MONOTONIC_MS :: int where
  "MONOTONIC_MS = 3155760000000"

definition SLEEP_OK_MS :: int where
  "SLEEP_OK_MS = SLEEP_MAX_MS - MONOTONIC_MS - 1"

definition sleep :: "int \<Rightarrow> (exn + unit) \<times> event list" where
  "sleep ms =
     (if ms < - SLEEP_MAX_MS \<or> SLEEP_MAX_MS < ms then (Inl OverflowError, [])
      else if ms < 0 then (Inl ValueError, [])
      else if SLEEP_OK_MS < ms then (Inl OSError, [])
      else (Inr (), [Sleep ms]))"

section \<open>Configuration\<close>

definition COMFY_API_AVAILABLE_INTERVAL_MS :: int where
  "COMFY_API_AVAILABLE_INTERVAL_MS = 50"

definition COMFY_API_AVAILABLE_MAX_RETRIES :: int where
  "COMFY_API_AVAILABLE_MAX_RETRIES = 500"

definition COMFY_POLLING_INTERVAL_MS :: int where
  "COMFY_POLLING_INTERVAL_MS = 250"

definition COMFY_POLLING_MAX_RETRIES :: nat where
  "COMFY_POLLING_MAX_RETRIES = 999"

definition COMFY_HOST :: string where
  "COMFY_HOST = ''127.0.0.1:8188''"

definition COMFY_OUTPUT_PATH :: string where
  "COMFY_OUTPUT_PATH = ''/comfyui/output''"

section \<open>Flags\<close>

definition true_strings :: "string list" where
  "true_strings = [''true'', ''t'', ''yes'', ''y'', ''ok'', ''1'']"

text \<open>\<^verbatim>\<open>job_prop_to_bool(job_input, propname)\<close>, lines 40 to 56.\<close>

definition job_prop_to_bool :: "(string \<times> json) list \<Rightarrow> string \<Rightarrow> bool" where
  "job_prop_to_bool job_input propname =
     (case dict_get job_input propname of
        JNull \<Rightarrow> False
      | JBool b \<Rightarrow> b
      | JStr s \<Rightarrow> strip (lower s) \<in> set true_strings
      | _ \<Rightarrow> False)"

section \<open>Helpers of the handler\<close>

text \<open>\<^verbatim>\<open>return_error(error_message)\<close>, lines 59 to 70: a dict with the one key \<^verbatim>\<open>error\<close>.\<close>

definition return_error :: "string \<Rightarrow> (string \<times> json) list" where
  "return_error error_message = [(''error'', JStr error_message)]"

text \<open>
  \<^verbatim>\<open>check_server(url, retries, delay)\<close>, lines 73 to 100, over \<open>get url i\<close>, what attempt
  \<open>i\<close> of \<^verbatim>\<open>requests.get(url)\<close> does. \<open>check_attempts\<close> is the body of
  \<^verbatim>\<open>for i in range(retries)\<close> over the attempts still to make: a response with status 200
  returns true at once; any other response and a \<^verbatim>\<open>RequestException\<close> fall through to the
  sleep and to the next attempt; an exception of another class is not caught by line 92
  and leaves the function, as does an exception of the sleep; the end of the range
  returns false.
\<close>

fun check_attempts ::
  "(string \<Rightarrow> nat \<Rightarrow> get_result) \<Rightarrow> string \<Rightarrow> int \<Rightarrow> nat list \<Rightarrow> (exn + bool) \<times> event list" where
  "check_attempts get url delay [] = (Inr False, [])"
| "check_attempts get url delay (i # rest) =
     (case get url i of
        Got (Response status_code) \<Rightarrow>
          (if status_code = 200 then (Inr True, [HttpGet url])
           else (case sleep delay of
                   (Inl e, t) \<Rightarrow> (Inl e, HttpGet url # t)
                 | (Inr u, t) \<Rightarrow>
                     (case check_attempts get url delay rest of
                        (r, t') \<Rightarrow> (r, HttpGet url # t @ t'))))
      | Got RequestException \<Rightarrow>
          (case sleep delay of
             (Inl e, t) \<Rightarrow> (Inl e, HttpGet url # t)
           | (Inr u, t) \<Rightarrow>
               (case check_attempts get url delay rest of
                  (r, t') \<Rightarrow> (r, HttpGet url # t @ t')))
      | OtherException e \<Rightarrow> (Inl e, [HttpGet url]))"

definition check_server ::
  "(string \<Rightarrow> nat \<Rightarrow> get_result) \<Rightarrow> string \<Rightarrow> int \<Rightarrow> int \<Rightarrow> (exn + bool) \<times> event list" where
  "check_server get url retries delay = check_attempts get url delay [0..<nat retries]"

text \<open>\<^verbatim>\<open>requests.get\<close> as the handler meets it, on the address of the engine.\<close>

definition engine_get :: "env \<Rightarrow> string \<Rightarrow> nat \<Rightarrow> get_result" where
  "engine_get env url i = Got (requests_get env url i)"

text \<open>\<^verbatim>\<open>queue_workflow(workflow)\<close>, lines 103 to 115.\<close>

definition queue_workflow :: "env \<Rightarrow> json \<Rightarrow> (exn + json) \<times> event list" where
  "queue_workflow env workflow =
     (let data = JObj [(''prompt'', workflow)]
      in (post_prompt env data, [HttpPost (''http://'' @ COMFY_HOST @ ''/prompt'') data]))"

text \<open>
  \<^verbatim>\<open>get_history(prompt_id)\<close>, lines 118 to 129; \<open>attempt\<close> counts the requests made before
  this one.
\<close>

definition get_history :: "env \<Rightarrow> json \<Rightarrow> nat \<Rightarrow> (exn + json) \<times> event list" where
  "get_history env prompt_id attempt =
     (let url = ''http://'' @ COMFY_HOST @ ''/history/'' @ py_str env prompt_id
      in (history_reply env url attempt, [HistoryGet url]))"

text \<open>\<^verbatim>\<open>base64_encode(img_file)\<close>, lines 132 to 139.\<close>

definition base64_encode :: "env \<Rightarrow> string \<Rightarrow> (exn + string) \<times> event list" where
  "base64_encode env img_file =
     (case read_bytes env img_file of
        Inl e \<Rightarrow> (Inl e, [ReadFile img_file])
      | Inr bytes \<Rightarrow> (Inr (b64encode bytes), [ReadFile img_file]))"

text \<open>\<^verbatim>\<open>detect_nudity(img_file)\<close>, lines 142 to 148.\<close>

definition detect_nudity :: "env \<Rightarrow> string \<Rightarrow> (exn + json) \<times> event list" where
  "detect_nudity env img_file = (detect env img_file, [Detect img_file])"

section \<open>The handler\<close>

text \<open>
  \<^verbatim>\<open>handler(job)\<close>, lines 151 to 255, in the order of its steps. A step goes on with a
  value (\<open>Next\<close>), ends the job with the dict it returns (\<open>Done\<close>), or lets an exception
  leave the handler (\<open>Raise\<close>).
\<close>

datatype 'a step = Next 'a | Done "(string \<times> json) list" | Raise exn

text \<open>
  Lines 164 to 185. \<^verbatim>\<open>job["input"]\<close> raises \<^verbatim>\<open>KeyError\<close> without the key, and
  \<^verbatim>\<open>job_input.get\<close> raises \<^verbatim>\<open>AttributeError\<close> on an input that is neither null nor a dict.
  Line 180 catches \<^verbatim>\<open>json.JSONDecodeError\<close> alone: any other exception of
  \<^verbatim>\<open>json.loads\<close> leaves the handler. The step yields the input dict and the workflow,
  decoded if it came as a string.
\<close>

definition handler_validate :: "env \<Rightarrow> (string \<times> json) list \<Rightarrow> ((string \<times> json) list \<times> json) step" where
  "handler_validate env job =
     (case dict_item job ''input'' of
        Inl e \<Rightarrow> Raise e
      | Inr JNull \<Rightarrow> Done (return_error ''no 'input' property found on job data'')
      | Inr (JObj job_input) \<Rightarrow>
          (if dict_get job_input ''workflow'' = JNull
           then Done (return_error ''no 'workflow' property found on job data'')
           else
             (case (case dict_get job_input ''workflow'' of
                      JStr s \<Rightarrow> json_loads env s
                    | w \<Rightarrow> Inr w) of
                Inl JSONDecodeError \<Rightarrow>
                  Done (return_error ''Invalid JSON format in 'workflow' data'')
              | Inl e \<Rightarrow> Raise e
              | Inr (JObj w) \<Rightarrow> Next (job_input, JObj w)
              | Inr _ \<Rightarrow>
                  Done (return_error
                    (CHR 0x27 # ''workflow' must be a JSON object or JSON-encoded string''))))
      | Inr _ \<Rightarrow> Raise AttributeError)"

text \<open>
  Lines 187 to 200: the availability check, whose result is dropped, then the one
  submission and the read of \<^verbatim>\<open>queued["prompt_id"]\<close> under \<^verbatim>\<open>except Exception\<close>.
\<close>

definition handler_submit :: "env \<Rightarrow> json \<Rightarrow> json step \<times> event list" where
  "handler_submit env workflow =
     (case check_server (engine_get env) (''http://'' @ COMFY_HOST)
             COMFY_API_AVAILABLE_MAX_RETRIES COMFY_API_AVAILABLE_INTERVAL_MS of
        (Inl e, t1) \<Rightarrow> (Raise e, t1)
      | (Inr reachable, t1) \<Rightarrow>
          (case queue_workflow env workflow of
             (Inl e, t2) \<Rightarrow>
               (Done (return_error (''Error queuing prompt: '' @ str_exc env e)), t1 @ t2)
           | (Inr queued, t2) \<Rightarrow>
               (case py_getitem queued (JStr ''prompt_id'') of
                  Inl e \<Rightarrow>
                    (Done (return_error (''Error queuing prompt: '' @ str_exc env e)), t1 @ t2)
                | Inr comfy_job_id \<Rightarrow> (Next comfy_job_id, t1 @ t2))))"

text \<open>
  The test of line 210:
  \<^verbatim>\<open>comfy_job_id in history and history[comfy_job_id].get("outputs")\<close>.
\<close>

definition poll_check :: "json \<Rightarrow> json \<Rightarrow> exn + bool" where
  "poll_check comfy_job_id history =
     (case py_contains comfy_job_id history of
        Inl e \<Rightarrow> Inl e
      | Inr False \<Rightarrow> Inr False
      | Inr True \<Rightarrow>
          (case py_getitem history comfy_job_id of
             Inl e \<Rightarrow> Inl e
           | Inr entry \<Rightarrow>
               (case py_get entry ''outputs'' of
                  Inl e \<Rightarrow> Inl e
                | Inr outputs \<Rightarrow> Inr (truthy outputs))))"

text \<open>
  Lines 204 to 219: the \<^verbatim>\<open>while retries < COMFY_POLLING_MAX_RETRIES\<close> loop, its
  \<^verbatim>\<open>else\<close> branch and the \<^verbatim>\<open>except Exception\<close> around both. The step yields the history
  on which the loop broke.
\<close>

function poll :: "env \<Rightarrow> json \<Rightarrow> nat \<Rightarrow> json step \<times> event list" where
  "poll env comfy_job_id retries =
     (if retries < COMFY_POLLING_MAX_RETRIES then
        (case get_history env comfy_job_id retries of
           (Inl e, t) \<Rightarrow>
             (Done (return_error (''Error waiting for image generation: '' @ str_exc env e)), t)
         | (Inr history, t) \<Rightarrow>
             (case poll_check comfy_job_id history of
                Inl e \<Rightarrow>
                  (Done (return_error
                     (''Error waiting for image generation: '' @ str_exc env e)), t)
              | Inr True \<Rightarrow> (Next history, t)
              | Inr False \<Rightarrow>
                  (case sleep COMFY_POLLING_INTERVAL_MS of
                     (Inl e, t') \<Rightarrow>
                       (Done (return_error
                          (''Error waiting for image generation: '' @ str_exc env e)), t @ t')
                   | (Inr u, t') \<Rightarrow>
                       (case poll env comfy_job_id (retries + 1) of
                          (r, t'') \<Rightarrow> (r, t @ t' @ t'')))))
      else (Done (return_error ''Max retries reached while waiting for image generation''), []))"
  by pat_completeness auto
termination
  by (relation "measure (\<lambda>(env, comfy_job_id, retries). COMFY_POLLING_MAX_RETRIES - retries)") auto

text \<open>
  Lines 228 and 229: every image in turn replaces \<^verbatim>\<open>output_images\<close> by its
  \<^verbatim>\<open>filename\<close>.
\<close>

fun scan_images :: "json list \<Rightarrow> json \<Rightarrow> exn + json" where
  "scan_images [] output_images = Inr output_images"
| "scan_images (img # rest) output_images =
     (case py_getitem img (JStr ''filename'') of
        Inl e \<Rightarrow> Inl e
      | Inr filename \<Rightarrow> scan_images rest filename)"

text \<open>Lines 226 to 229: the loop over \<^verbatim>\<open>outputs.items()\<close>.\<close>

fun scan_nodes :: "(string \<times> json) list \<Rightarrow> json \<Rightarrow> exn + json" where
  "scan_nodes [] output_images = Inr output_images"
| "scan_nodes ((node_id, node_output) # rest) output_images =
     (case py_contains (JStr ''images'') node_output of
        Inl e \<Rightarrow> Inl e
      | Inr False \<Rightarrow> scan_nodes rest output_images
      | Inr True \<Rightarrow>
          (case py_getitem node_output (JStr ''images'') of
             Inl e \<Rightarrow> Inl e
           | Inr images \<Rightarrow>
               (case py_iter images of
                  Inl e \<Rightarrow> Inl e
                | Inr image_list \<Rightarrow>
                    (case scan_images image_list output_images of
                       Inl e \<Rightarrow> Inl e
                     | Inr filename \<Rightarrow> scan_nodes rest filename))))"

text \<open>
  Lines 222 to 229: \<^verbatim>\<open>output_images\<close> starts as the empty dict; nothing here is under a
  \<^verbatim>\<open>try\<close>.
\<close>

definition handler_outputs :: "json \<Rightarrow> json \<Rightarrow> json step" where
  "handler_outputs comfy_job_id history =
     (case py_getitem history comfy_job_id of
        Inl e \<Rightarrow> Raise e
      | Inr entry \<Rightarrow>
          (case py_get entry ''outputs'' of
             Inl e \<Rightarrow> Raise e
           | Inr outputs \<Rightarrow>
               (case py_items outputs of
                  Inl e \<Rightarrow> Raise e
                | Inr nodes \<Rightarrow>
                    (case scan_nodes nodes (JObj []) of
                       Inl e \<Rightarrow> Raise e
                     | Inr output_images \<Rightarrow> Next output_images))))"

text \<open>Line 234.\<close>

definition local_image_path :: "env \<Rightarrow> json \<Rightarrow> string" where
  "local_image_path env output_images = COMFY_OUTPUT_PATH @ ''/'' @ py_str env output_images"

text \<open>Lines 250 and 251, on the dict built so far.\<close>

definition attach_base64 ::
  "env \<Rightarrow> (string \<times> json) list \<Rightarrow> bool \<Rightarrow> string \<Rightarrow> (string \<times> json) list
     \<Rightarrow> (exn + (string \<times> json) list) \<times> event list" where
  "attach_base64 env job_input aws_uploaded path job_output =
     (if \<not> aws_uploaded \<and> job_prop_to_bool job_input ''return-b64''
      then (case base64_encode env path of
              (Inl e, t) \<Rightarrow> (Inl e, t)
            | (Inr encoded, t) \<Rightarrow> (Inr (dict_set job_output ''base64'' (JStr encoded)), t))
      else (Inr job_output, []))"

text \<open>Lines 247 and 248.\<close>

definition attach_nsfw ::
  "env \<Rightarrow> (string \<times> json) list \<Rightarrow> string \<Rightarrow> (string \<times> json) list
     \<Rightarrow> (exn + (string \<times> json) list) \<times> event list" where
  "attach_nsfw env job_input path job_output =
     (if job_prop_to_bool job_input ''return-nsfw''
      then (case detect_nudity env path of
              (Inl e, t) \<Rightarrow> (Inl e, t)
            | (Inr findings, t) \<Rightarrow> (Inr (dict_set job_output ''nsfw'' findings), t))
      else (Inr job_output, []))"

text \<open>
  Lines 234 to 255. \<^verbatim>\<open>job["id"]\<close> is read before the upload is called; the upload, the
  classifier and the encoder are not under a \<^verbatim>\<open>try\<close>.
\<close>

definition handler_finish ::
  "env \<Rightarrow> (string \<times> json) list \<Rightarrow> (string \<times> json) list \<Rightarrow> json
     \<Rightarrow> (exn + (string \<times> json) list) \<times> event list" where
  "handler_finish env job job_input output_images =
     (let path = local_image_path env output_images in
      if path_exists env path then
        (case dict_item job ''id'' of
           Inl e \<Rightarrow> (Inl e, [PathExists path])
         | Inr job_id \<Rightarrow>
             (case upload_image env job_id path of
                Inl e \<Rightarrow> (Inl e, [PathExists path, Upload job_id path])
              | Inr image_url \<Rightarrow>
                  (let aws_uploaded = \<not> str_contains ''simulated_uploaded/'' image_url in
                   case attach_nsfw env job_input path (dict_set [] ''url'' (JStr image_url)) of
                     (Inl e, t1) \<Rightarrow> (Inl e, [PathExists path, Upload job_id path] @ t1)
                   | (Inr job_output, t1) \<Rightarrow>
                       (case attach_base64 env job_input aws_uploaded path job_output of
                          (r, t2) \<Rightarrow> (r, [PathExists path, Upload job_id path] @ t1 @ t2)))))
      else (Inr (return_error
                   (''image does not exist in the specified output folder: '' @ path)),
            [PathExists path]))"

text \<open>
  The whole of \<^verbatim>\<open>handler(job)\<close>: the dict it returns or the exception that leaves it, and
  what it did.
\<close>

definition handler :: "env \<Rightarrow> (string \<times> json) list \<Rightarrow> (exn + (string \<times> json) list) \<times> event list" where
  "handler env job =
     (case handler_validate env job of
        Raise e \<Rightarrow> (Inl e, [])
      | Done d \<Rightarrow> (Inr d, [])
      | Next (job_input, workflow) \<Rightarrow>
          (case handler_submit env workflow of
             (Raise e, t1) \<Rightarrow> (Inl e, t1)
           | (Done d, t1) \<Rightarrow> (Inr d, t1)
           | (Next comfy_job_id, t1) \<Rightarrow>
               (case poll env comfy_job_id 0 of
                  (Raise e, t2) \<Rightarrow> (Inl e, t1 @ t2)
                | (Done d, t2) \<Rightarrow> (Inr d, t1 @ t2)
                | (Next history, t2) \<Rightarrow>
                    (case handler_outputs comfy_job_id history of
                       Raise e \<Rightarrow> (Inl e, t1 @ t2)
                     | Done d \<Rightarrow> (Inr d, t1 @ t2)
                     | Next output_images \<Rightarrow>
                         (case handler_finish env job job_input output_images of
                            (r, t3) \<Rightarrow> (r, t1 @ t2 @ t3))))))"

section \<open>Vocabulary of the properties\<close>

text \<open>Kinds of events, to count and to exclude them in what the handler did.\<close>

fun is_history_get :: "event \<Rightarrow> bool" where
  "is_history_get (HistoryGet url) = True"
| "is_history_get ev = False"

fun is_post :: "event \<Rightarrow> bool" where
  "is_post (HttpPost url body) = True"
| "is_post ev = False"

fun is_network :: "event \<Rightarrow> bool" where
  "is_network (HttpGet url) = True"
| "is_network (HttpPost url body) = True"
| "is_network (HistoryGet url) = True"
| "is_network ev = False"

fun is_post_processing :: "event \<Rightarrow> bool" where
  "is_post_processing (Upload job_id path) = True"
| "is_post_processing (Detect path) = True"
| "is_post_processing (ReadFile path) = True"
| "is_post_processing ev = False"


text \<open>The address that \<open>get_history\<close> requests.\<close>

definition history_url :: "env \<Rightarrow> json \<Rightarrow> string" where
  "history_url env prompt_id = ''http://'' @ COMFY_HOST @ ''/history/'' @ py_str env prompt_id"

text \<open>
  The two results of the interface: \<^verbatim>\<open>{"error": ...}\<close> alone, or \<^verbatim>\<open>url\<close> with at most
  \<^verbatim>\<open>nsfw\<close> and \<^verbatim>\<open>base64\<close> beside it.
\<close>

definition is_error_envelope :: "(string \<times> json) list \<Rightarrow> bool" where
  "is_error_envelope d = (map fst d = [''error''])"

definition is_success_envelope :: "(string \<times> json) list \<Rightarrow> bool" where
  "is_success_envelope d =
     (''url'' \<in> set (map fst d) \<and> set (map fst d) \<subseteq> {''url'', ''nsfw'', ''base64''})"

text \<open>
  The shape of an \<^verbatim>\<open>outputs\<close> section as the engine documents it: every node is a dict
  whose \<^verbatim>\<open>images\<close>, when present, is a list of dicts that each carry a \<^verbatim>\<open>filename\<close>.
  \<open>reported_images\<close> lists the images of all nodes in the order of iteration.
\<close>

definition image_ok :: "json \<Rightarrow> bool" where
  "image_ok img = (case img of JObj d \<Rightarrow> map_of d ''filename'' \<noteq> None | _ \<Rightarrow> False)"

definition node_ok :: "json \<Rightarrow> bool" where
  "node_ok node_output =
     (case node_output of
        JObj d \<Rightarrow>
          (case map_of d ''images'' of
             None \<Rightarrow> True
           | Some (JArr imgs) \<Rightarrow> list_all image_ok imgs
           | Some _ \<Rightarrow> False)
      | _ \<Rightarrow> False)"

definition node_images :: "json \<Rightarrow> json list" where
  "node_images node_output =
     (case node_output of
        JObj d \<Rightarrow> (case map_of d ''images'' of Some (JArr imgs) \<Rightarrow> imgs | _ \<Rightarrow> [])
      | _ \<Rightarrow> [])"

definition reported_images :: "(string \<times> json) list \<Rightarrow> json list" where
  "reported_images nodes = concat (map (\<lambda>node. node_images (snd node)) nodes)"

definition image_filename :: "json \<Rightarrow> json" where
  "image_filename img = (case img of JObj d \<Rightarrow> dict_get d ''filename'' | _ \<Rightarrow> JNull)"


section \<open>A sample job and sample worlds\<close>

text \<open>
  One job on which the properties below are exercised, and a world in which everything
  succeeds at the first attempt: the engine answers at once with the prompt id
  \<^verbatim>\<open>abc\<close>, the first history reply holds one image, the file exists, the upload is
  simulated. The other worlds differ from it in one collaborator each.
\<close>

definition demo_history :: json where
  "demo_history = JObj [(''abc'', JObj [(''outputs'',
          JObj [(''9'', JObj [(''images'', JArr [JObj [(''filename'', JStr ''img1.png'')]])])])])]"

definition demo_env :: env where
  "demo_env =
     \<lparr> requests_get = (\<lambda>url i. Response 200),
       json_loads = (\<lambda>s. Inl JSONDecodeError),
       post_prompt = (\<lambda>body. Inr (JObj [(''prompt_id'', JStr ''abc'')])),
       history_reply = (\<lambda>url i. Inr demo_history),
       path_exists = (\<lambda>p. True),
       upload_image = (\<lambda>job_id p. Inr ''simulated_uploaded/img1.png''),
       detect = (\<lambda>p. Inr (JArr [])),
       read_bytes = (\<lambda>p. Inr ''Man''),
       str_exc = (\<lambda>e. ''failure''),
       str_value = (\<lambda>v. ''?'') \<rparr>"

definition demo_workflow :: json where
  "demo_workflow = JObj [(''3'', JObj [(''class_type'', JStr ''X'')])]"

definition demo_input :: "(string \<times> json) list" where
  "demo_input = [(''workflow'', demo_workflow), (''return-nsfw'', JBool True),
                 (''return-b64'', JStr ''Yes'')]"

definition demo_job :: "(string \<times> json) list" where
  "demo_job = [(''id'', JStr ''j1''), (''input'', JObj demo_input)]"


text \<open>The history never shows the prompt.\<close>

definition stalled_env :: env where
  "stalled_env = demo_env\<lparr>history_reply := (\<lambda>url i. Inr (JObj []))\<rparr>"

text \<open>Two nodes with three images between them.\<close>

definition two_nodes :: "(string \<times> json) list" where
  "two_nodes =
     [(''9'', JObj [(''images'', JArr [JObj [(''filename'', JStr ''a.png'')],
                                       JObj [(''filename'', JStr ''b.png'')]])]),
      (''12'', JObj [(''images'', JArr [JObj [(''filename'', JStr ''c.png'')]])])]"

definition two_node_history :: json where
  "two_node_history = JObj [(''abc'', JObj [(''outputs'', JObj two_nodes)])]"

text \<open>The engine never answers the check, and the submission fails.\<close>

definition refused_env :: env where
  "refused_env =
     demo_env\<lparr>requests_get := (\<lambda>url i. RequestException),
               post_prompt := (\<lambda>body. Inl (Failure ''connection refused''))\<rparr>"

text \<open>The generated file is not on disk.\<close>

definition missing_env :: env where
  "missing_env = demo_env\<lparr>path_exists := (\<lambda>p. False)\<rparr>"

text \<open>The prompt completes with a text output and no image.\<close>

definition text_only_history :: json where
  "text_only_history =
     JObj [(''abc'', JObj [(''outputs'', JObj [(''9'', JObj [(''text'', JArr [JStr ''done''])])])])]"

definition text_only_env :: env where
  "text_only_env =
     demo_env\<lparr>history_reply := (\<lambda>url i. Inr text_only_history),
               path_exists := (\<lambda>p. False)\<rparr>"


text \<open>A job whose workflow is a string that is not JSON.\<close>

definition not_json_job :: "(string \<times> json) list" where
  "not_json_job = [(''id'', JStr ''j2''), (''input'', JObj [(''workflow'', JStr ''not json'')])]"

section \<open>Auxiliary facts\<close>

declare poll.simps [simp del]

lemma sleep_nonneg:
  "0 \<le> ms \<Longrightarrow> ms \<le> SLEEP_OK_MS \<Longrightarrow> sleep ms = (Inr (), [Sleep ms])"
  by (simp add: sleep_def SLEEP_OK_MS_def SLEEP_MAX_MS_def MONOTONIC_MS_def)



lemma count_gets_replicate:
  "length (filter (\<lambda>ev. ev = HttpGet url) (concat (replicate n [HttpGet url, Sleep d]))) = n"
  by (induction n) simp_all

lemma sleep_polling: "sleep COMFY_POLLING_INTERVAL_MS = (Inr (), [Sleep COMFY_POLLING_INTERVAL_MS])"
  by (simp add: sleep_def COMFY_POLLING_INTERVAL_MS_def SLEEP_OK_MS_def SLEEP_MAX_MS_def MONOTONIC_MS_def)

lemma get_history_trace: "snd (get_history env cid i) = [HistoryGet (history_url env cid)]"
  by (simp add: get_history_def history_url_def Let_def)

lemma poll_exhaust:
  assumes "\<forall>i. retries \<le> i \<and> i < COMFY_POLLING_MAX_RETRIES \<longrightarrow>
             (\<exists>h. fst (get_history env cid i) = Inr h \<and> poll_check cid h = Inr False)"
  shows "poll env cid retries =
           (Done (return_error ''Max retries reached while waiting for image generation''),
            concat (replicate (COMFY_POLLING_MAX_RETRIES - retries)
                      [HistoryGet (history_url env cid), Sleep COMFY_POLLING_INTERVAL_MS]))"
  using assms
proof (induction "COMFY_POLLING_MAX_RETRIES - retries" arbitrary: retries)
  case 0
  then have "\<not> retries < COMFY_POLLING_MAX_RETRIES" by simp
  then show ?case using 0 by (subst poll.simps) simp
next
  case (Suc k)
  then have lt: "retries < COMFY_POLLING_MAX_RETRIES" by simp
  with Suc.prems obtain h where h: "fst (get_history env cid retries) = Inr h"
      "poll_check cid h = Inr False" by auto
  have gh: "get_history env cid retries = (Inr h, [HistoryGet (history_url env cid)])"
    using h(1) get_history_trace[of env cid retries] by (cases "get_history env cid retries") simp
  have k: "k = COMFY_POLLING_MAX_RETRIES - (retries + 1)" using Suc.hyps(2) by simp
  have "\<forall>i. retries + 1 \<le> i \<and> i < COMFY_POLLING_MAX_RETRIES \<longrightarrow>
             (\<exists>h. fst (get_history env cid i) = Inr h \<and> poll_check cid h = Inr False)"
    using Suc.prems by simp
  from Suc.hyps(1)[OF k this]
  have ih: "poll env cid (retries + 1) =
           (Done (return_error ''Max retries reached while waiting for image generation''),
            concat (replicate k [HistoryGet (history_url env cid), Sleep COMFY_POLLING_INTERVAL_MS]))"
    using k by simp
  have "COMFY_POLLING_MAX_RETRIES - retries = Suc k" using Suc.hyps(2) by simp
  then show ?case
    using lt gh h(2) ih by (subst poll.simps) (simp add: sleep_polling)
qed

lemma count_history_replicate:
  "length (filter is_history_get (concat (replicate n [HistoryGet u, Sleep d]))) = n"
  by (induction n) simp_all

lemma check_attempts_events:
  "ev \<in> set (snd (check_attempts get url delay idxs)) \<Longrightarrow> ev = HttpGet url \<or> ev = Sleep delay"
proof (induction idxs)
  case Nil
  then show ?case by simp
next
  case (Cons i rest)
  obtain r t where rec: "check_attempts get url delay rest = (r, t)"
    by (cases "check_attempts get url delay rest")
  show ?case
  proof (cases "get url i")
    case (Got outcome)
    with Cons rec show ?thesis
      by (cases outcome) (auto simp: sleep_def split: if_splits)
  next
    case (OtherException e)
    with Cons show ?thesis by simp
  qed
qed

lemma handler_submit_trace:
  assumes "handler_submit env workflow = (r, t)"
  shows "\<exists>b tc. check_server (engine_get env) (''http://'' @ COMFY_HOST)
            COMFY_API_AVAILABLE_MAX_RETRIES COMFY_API_AVAILABLE_INTERVAL_MS = (b, tc) \<and>
          (t = tc \<or> t = tc @ [HttpPost (''http://'' @ COMFY_HOST @ ''/prompt'')
                                 (JObj [(''prompt'', workflow)])])"
  using assms
  by (cases "check_server (engine_get env) (''http://'' @ COMFY_HOST)
      COMFY_API_AVAILABLE_MAX_RETRIES COMFY_API_AVAILABLE_INTERVAL_MS")
     (auto simp: handler_submit_def queue_workflow_def Let_def split: sum.splits)

lemma handler_submit_events:
  assumes "handler_submit env workflow = (r, t)" and "ev \<in> set t"
  shows "(\<exists>url. ev = HttpGet url) \<or> (\<exists>ms. ev = Sleep ms) \<or>
         ev = HttpPost (''http://'' @ COMFY_HOST @ ''/prompt'') (JObj [(''prompt'', workflow)])"
proof -
  from handler_submit_trace[OF assms(1)] obtain b tc where cs:
    "check_server (engine_get env) (''http://'' @ COMFY_HOST)
      COMFY_API_AVAILABLE_MAX_RETRIES COMFY_API_AVAILABLE_INTERVAL_MS = (b, tc)"
    and t: "t = tc \<or> t = tc @ [HttpPost (''http://'' @ COMFY_HOST @ ''/prompt'')
                                 (JObj [(''prompt'', workflow)])]"
    by blast
  have tc: "(\<exists>url. e = HttpGet url) \<or> (\<exists>ms. e = Sleep ms)" if "e \<in> set tc" for e
    using check_attempts_events[of e "engine_get env" "''http://'' @ COMFY_HOST"
        COMFY_API_AVAILABLE_INTERVAL_MS "[0..<nat COMFY_API_AVAILABLE_MAX_RETRIES]"] that cs
    unfolding check_server_def by auto
  from t assms(2) tc[of ev] show ?thesis by auto
qed

lemma check_attempts_returns:
  assumes "0 \<le> delay" and "delay \<le> SLEEP_OK_MS"
    and "\<forall>i\<in>set idxs. \<forall>e. get url i \<noteq> OtherException e"
  shows "\<exists>b. fst (check_attempts get url delay idxs) = Inr b"
  using assms(3)
proof (induction idxs)
  case Nil
  show ?case by (rule exI[of _ False]) simp
next
  case (Cons i rest)
  then obtain b where ih: "fst (check_attempts get url delay rest) = Inr b" by auto
  obtain r t where rec: "check_attempts get url delay rest = (r, t)"
    by (cases "check_attempts get url delay rest")
  show ?case
  proof (cases "get url i")
    case (Got outcome)
    with ih rec show ?thesis
      by (cases outcome) (auto simp: sleep_nonneg[OF assms(1,2)])
  next
    case (OtherException e)
    with Cons.prems show ?thesis by simp
  qed
qed

lemma check_server_handler_returns:
  "\<exists>b. fst (check_server (engine_get env) url COMFY_API_AVAILABLE_MAX_RETRIES
                COMFY_API_AVAILABLE_INTERVAL_MS) = Inr b"
  unfolding check_server_def
  by (rule check_attempts_returns)
     (simp_all add: COMFY_API_AVAILABLE_INTERVAL_MS_def SLEEP_OK_MS_def SLEEP_MAX_MS_def
       MONOTONIC_MS_def engine_get_def)

lemma poll_result:
  assumes "poll env cid retries = (res, t)"
  shows "(\<forall>ev\<in>set t. ev = HistoryGet (history_url env cid) \<or> ev = Sleep COMFY_POLLING_INTERVAL_MS) \<and>
         (case res of
            Raise e \<Rightarrow> False
          | Done d \<Rightarrow> \<exists>m. d = return_error m
          | Next h \<Rightarrow> \<exists>i. retries \<le> i \<and> i < COMFY_POLLING_MAX_RETRIES \<and>
                          fst (get_history env cid i) = Inr h \<and> poll_check cid h = Inr True)"
  using assms
proof (induction "COMFY_POLLING_MAX_RETRIES - retries" arbitrary: retries res t)
  case 0
  then have "\<not> retries < COMFY_POLLING_MAX_RETRIES" by simp
  with 0(2) show ?case by (subst (asm) poll.simps) auto
next
  case (Suc k)
  then have lt: "retries < COMFY_POLLING_MAX_RETRIES" by simp
  have k: "k = COMFY_POLLING_MAX_RETRIES - (retries + 1)" using Suc.hyps(2) by simp
  obtain g where g: "get_history env cid retries = (g, [HistoryGet (history_url env cid)])"
    using get_history_trace[of env cid retries] by (cases "get_history env cid retries") simp
  show ?case
  proof (cases g)
    case (Inl e)
    with Suc.prems lt g show ?thesis by (subst (asm) poll.simps) auto
  next
    case (Inr h)
    show ?thesis
    proof (cases "poll_check cid h")
      case (Inl e)
      with Suc.prems lt g Inr show ?thesis by (subst (asm) poll.simps) auto
    next
      case chk: (Inr b)
      show ?thesis
      proof (cases b)
        case True
        with Suc.prems lt g Inr chk have "res = Next h" "t = [HistoryGet (history_url env cid)]"
          by (subst (asm) poll.simps, simp)+
        moreover have "fst (get_history env cid retries) = Inr h" using g Inr by simp
        ultimately show ?thesis using lt chk True by auto
      next
        case False
        obtain r' t' where rec: "poll env cid (retries + 1) = (r', t')"
          by (cases "poll env cid (retries + 1)") simp
        from Suc.prems lt g Inr chk False rec
        have res: "res = r'"
          and t: "t = [HistoryGet (history_url env cid)] @ [Sleep COMFY_POLLING_INTERVAL_MS] @ t'"
          by (subst (asm) poll.simps, simp add: sleep_polling)+
        from Suc.hyps(1)[OF k rec] res t show ?thesis
          by (cases r') (auto dest: Suc_leD)
      qed
    qed
  qed
qed

lemma handler_validate_Next:
  "handler_validate env job = Next (ji, workflow) \<Longrightarrow>
     map_of job ''input'' = Some (JObj ji) \<and> (\<exists>w. workflow = JObj w)"
  by (auto simp: handler_validate_def dict_item_def
           split: option.splits json.splits if_splits sum.splits exn.splits) metis




lemma handler_outputs_not_Done: "handler_outputs cid h \<noteq> Done d"
  by (auto simp: handler_outputs_def split: sum.splits)

lemma handler_finish_missing:
  "\<not> path_exists env (local_image_path env f) \<Longrightarrow>
   handler_finish env job ji f =
     (Inr (return_error (''image does not exist in the specified output folder: ''
                          @ local_image_path env f)),
      [PathExists (local_image_path env f)])"
  by (simp add: handler_finish_def Let_def)

lemma handler_finish_success:
  assumes "handler_finish env job ji f = (Inr d, t)"
    and "path_exists env (local_image_path env f)"
  shows "\<exists>job_id image_url nsfw_part b64_part.
           map_of job ''id'' = Some job_id \<and>
           Upload job_id (local_image_path env f) \<in> set t \<and>
           upload_image env job_id (local_image_path env f) = Inr image_url \<and>
           d = [(''url'', JStr image_url)] @ nsfw_part @ b64_part \<and>
           (if job_prop_to_bool ji ''return-nsfw''
            then \<exists>findings. detect env (local_image_path env f) = Inr findings \<and>
                            nsfw_part = [(''nsfw'', findings)]
            else nsfw_part = []) \<and>
           (if job_prop_to_bool ji ''return-b64'' \<and> str_contains ''simulated_uploaded/'' image_url
            then \<exists>bytes. read_bytes env (local_image_path env f) = Inr bytes \<and>
                         b64_part = [(''base64'', JStr (b64encode bytes))]
            else b64_part = [])"
  using assms
  by (auto simp: handler_finish_def Let_def dict_item_def attach_nsfw_def attach_base64_def
                 detect_nudity_def base64_encode_def
           split: option.splits sum.splits if_splits prod.splits)

lemma handler_finish_events:
  assumes "handler_finish env job ji f = (r, t)" and "ev \<in> set t"
  shows "\<not> is_network ev"
  using assms
  by (auto simp: handler_finish_def Let_def dict_item_def attach_nsfw_def attach_base64_def
                 detect_nudity_def base64_encode_def
           split: option.splits sum.splits if_splits prod.splits)


lemma return_error_no_url: "map_of (return_error m) ''url'' = None"
  by (simp add: return_error_def)

lemma check_server_first_ok:
  assumes "0 < retries" and "get url 0 = Got (Response 200)"
  shows "check_server get url retries delay = (Inr True, [HttpGet url])"
proof -
  from assms(1) have "[0..<nat retries] = 0 # [Suc 0..<nat retries]"
    by (simp add: upt_conv_Cons)
  with assms(2) show ?thesis by (simp add: check_server_def)
qed

lemma handler_submit_ok:
  assumes "requests_get env (''http://'' @ COMFY_HOST) 0 = Response 200"
    and "post_prompt env (JObj [(''prompt'', w)]) = Inr q"
    and "py_getitem q (JStr ''prompt_id'') = Inr cid"
  shows "handler_submit env w =
           (Next cid, [HttpGet (''http://'' @ COMFY_HOST),
                       HttpPost (''http://'' @ COMFY_HOST @ ''/prompt'') (JObj [(''prompt'', w)])])"
proof -
  have "check_server (engine_get env) (''http://'' @ COMFY_HOST) COMFY_API_AVAILABLE_MAX_RETRIES
          COMFY_API_AVAILABLE_INTERVAL_MS = (Inr True, [HttpGet (''http://'' @ COMFY_HOST)])"
    by (rule check_server_first_ok)
       (use assms(1) in \<open>simp_all add: COMFY_API_AVAILABLE_MAX_RETRIES_def engine_get_def\<close>)
  with assms(2,3) show ?thesis
    by (simp add: handler_submit_def queue_workflow_def Let_def)
qed

lemma poll_first:
  assumes "fst (get_history env cid 0) = Inr h" and "poll_check cid h = Inr True"
  shows "poll env cid 0 = (Next h, [HistoryGet (history_url env cid)])"
proof -
  have "get_history env cid 0 = (Inr h, [HistoryGet (history_url env cid)])"
    using assms(1) get_history_trace[of env cid 0] by (cases "get_history env cid 0") simp
  with assms(2) show ?thesis
    by (subst poll.simps) (simp add: COMFY_POLLING_MAX_RETRIES_def)
qed

lemma demo_validate: "handler_validate env demo_job = Next (demo_input, demo_workflow)"
  by (simp add: handler_validate_def demo_job_def demo_input_def demo_workflow_def
        dict_item_def dict_get_def)

lemma demo_submit:
  assumes "requests_get env = requests_get demo_env" "post_prompt env = post_prompt demo_env"
  shows "handler_submit env demo_workflow =
     (Next (JStr ''abc''), [HttpGet (''http://'' @ COMFY_HOST),
        HttpPost (''http://'' @ COMFY_HOST @ ''/prompt'') (JObj [(''prompt'', demo_workflow)])])"
  by (rule handler_submit_ok[where q = "JObj [(''prompt_id'', JStr ''abc'')]"])
     (simp_all add: assms demo_env_def py_getitem_def dict_item_def)

lemma demo_poll_check: "poll_check (JStr ''abc'') demo_history = Inr True"
  by (simp add: poll_check_def demo_history_def py_contains_def py_getitem_def py_get_def
        dict_item_def dict_get_def)

lemma demo_outputs: "handler_outputs (JStr ''abc'') demo_history = Next (JStr ''img1.png'')"
  by (simp add: handler_outputs_def demo_history_def py_contains_def py_getitem_def py_get_def
        py_items_def py_iter_def dict_item_def dict_get_def)

lemma demo_flags:
  "job_prop_to_bool demo_input ''return-nsfw''" "job_prop_to_bool demo_input ''return-b64''"
  by code_simp+

lemma demo_history_reply: "history_reply demo_env url i = Inr demo_history"
  by (simp add: demo_env_def)

lemma demo_poll:
  assumes "history_reply env = history_reply demo_env"
  shows "poll env (JStr ''abc'') 0 = (Next demo_history, [HistoryGet (history_url env (JStr ''abc''))])"
  by (rule poll_first) (simp_all add: demo_poll_check get_history_def Let_def assms demo_history_reply)

lemma b64_Man: "b64encode ''Man'' = ''TWFu''"
  by (simp add: b64_digit_def b64_alphabet_def)



lemma scan_images_ok:
  "list_all image_ok imgs \<Longrightarrow>
   scan_images imgs acc = Inr (if imgs = [] then acc else image_filename (last imgs))"
proof (induction imgs arbitrary: acc)
  case Nil
  then show ?case by simp
next
  case (Cons img rest)
  then obtain d v where img: "img = JObj d" "map_of d ''filename'' = Some v"
    by (auto simp: image_ok_def split: json.splits)
  from Cons have "scan_images rest v = Inr (if rest = [] then v else image_filename (last rest))"
    by simp
  with img show ?case
    by (simp add: py_getitem_def dict_item_def image_filename_def dict_get_def)
qed

lemma scan_nodes_ok:
  "list_all (\<lambda>node. node_ok (snd node)) nodes \<Longrightarrow>
   scan_nodes nodes acc =
     Inr (if reported_images nodes = [] then acc
          else image_filename (last (reported_images nodes)))"
proof (induction nodes arbitrary: acc)
  case Nil
  then show ?case by (simp add: reported_images_def)
next
  case (Cons node rest)
  obtain node_id node_output where node: "node = (node_id, node_output)" by (cases node)
  from Cons.prems node obtain d where d: "node_output = JObj d"
    by (auto simp: node_ok_def split: json.splits)
  have ih: "scan_nodes rest a =
     Inr (if reported_images rest = [] then a
          else image_filename (last (reported_images rest)))" for a
    using Cons by simp
  have rep: "reported_images (node # rest) = node_images node_output @ reported_images rest"
    by (simp add: reported_images_def node)
  show ?case
  proof (cases "map_of d ''images''")
    case None
    then have "node_images node_output = []" by (simp add: node_images_def d)
    with None ih[of acc] rep show ?thesis
      by (simp add: node d py_contains_def)
  next
    case (Some v)
    with Cons.prems node d obtain imgs where v: "v = JArr imgs" "list_all image_ok imgs"
      by (auto simp: node_ok_def split: json.splits)
    have ni: "node_images node_output = imgs" by (simp add: node_images_def d Some v)
    from scan_images_ok[OF v(2), of acc] Some v ih rep ni show ?thesis
      by (simp add: node d py_contains_def py_getitem_def dict_item_def py_iter_def)
  qed
qed

lemma handler_submit_posts:
  "filter is_post (snd (handler_submit env workflow)) =
     [HttpPost (''http://'' @ COMFY_HOST @ ''/prompt'') (JObj [(''prompt'', workflow)])]"
proof -
  obtain b tc where cs: "check_server (engine_get env) (''http://'' @ COMFY_HOST)
      COMFY_API_AVAILABLE_MAX_RETRIES COMFY_API_AVAILABLE_INTERVAL_MS = (b, tc)"
    by (cases "check_server (engine_get env) (''http://'' @ COMFY_HOST)
      COMFY_API_AVAILABLE_MAX_RETRIES COMFY_API_AVAILABLE_INTERVAL_MS")
  from check_server_handler_returns[of env "''http://'' @ COMFY_HOST"] cs
  obtain reachable where b: "b = Inr reachable" by auto
  have "\<not> is_post e" if "e \<in> set tc" for e
    using check_attempts_events[of e "engine_get env" "''http://'' @ COMFY_HOST"
        COMFY_API_AVAILABLE_INTERVAL_MS "[0..<nat COMFY_API_AVAILABLE_MAX_RETRIES]"] that cs
    unfolding check_server_def by auto
  then have tc: "filter is_post tc = []" by (simp add: filter_empty_conv)
  show ?thesis
    using cs b tc
    by (auto simp: handler_submit_def queue_workflow_def Let_def split: sum.splits)
qed

lemma poll_no_posts: "filter is_post (snd (poll env cid retries)) = []"
proof -
  obtain r t where p: "poll env cid retries = (r, t)" by (cases "poll env cid retries")
  from poll_result[OF p] have "\<forall>ev\<in>set t. \<not> is_post ev" by auto
  with p show ?thesis by (simp add: filter_empty_conv)
qed

lemma poll_no_post_processing: "filter is_post_processing (snd (poll env cid retries)) = []"
proof -
  obtain r t where p: "poll env cid retries = (r, t)" by (cases "poll env cid retries")
  from poll_result[OF p] have "\<forall>ev\<in>set t. \<not> is_post_processing ev" by auto
  with p show ?thesis by (simp add: filter_empty_conv)
qed

lemma handler_submit_no_post_processing:
  "filter is_post_processing (snd (handler_submit env workflow)) = []"
proof -
  obtain r t where s: "handler_submit env workflow = (r, t)"
    by (cases "handler_submit env workflow")
  have "\<not> is_post_processing ev" if "ev \<in> set t" for ev
    using handler_submit_events[OF s that] by auto
  with s show ?thesis by (simp add: filter_empty_conv)
qed

lemma handler_finish_no_posts:
  "filter is_post (snd (handler_finish env job ji f)) = []"
proof -
  obtain r t where s: "handler_finish env job ji f = (r, t)"
    by (cases "handler_finish env job ji f")
  have "\<not> is_post ev" if "ev \<in> set t" for ev
    using handler_finish_events[OF s that] by (cases ev) auto
  with s show ?thesis by (simp add: filter_empty_conv)
qed

lemma handler_trace:
  assumes "handler_validate env job = Next (ji, workflow)"
  shows "\<exists>t2 t3. snd (handler env job) = snd (handler_submit env workflow) @ t2 @ t3 \<and>
           filter is_post t2 = [] \<and> filter is_post t3 = []"
proof -
  obtain s t1 where sub: "handler_submit env workflow = (s, t1)"
    by (cases "handler_submit env workflow")
  have fin: "?thesis" if "snd (handler env job) = t1 @ t2 @ t3"
      "filter is_post t2 = []" "filter is_post t3 = []" for t2 t3
    using that sub by (intro exI[of _ t2] exI[of _ t3]) simp
  show ?thesis
  proof (cases s)
    case (Raise e)
    with assms sub have "snd (handler env job) = t1 @ [] @ []" by (simp add: handler_def)
    then show ?thesis by (rule fin) simp_all
  next
    case (Done d)
    with assms sub have "snd (handler env job) = t1 @ [] @ []" by (simp add: handler_def)
    then show ?thesis by (rule fin) simp_all
  next
    case sn: (Next cid)
    obtain q t2 where pl: "poll env cid 0 = (q, t2)" by (cases "poll env cid 0")
    have t2: "filter is_post t2 = []" using poll_no_posts[of env cid 0] pl by simp
    show ?thesis
    proof (cases q)
      case (Raise e)
      with assms sub sn pl have "snd (handler env job) = t1 @ t2 @ []"
        by (simp add: handler_def)
      then show ?thesis using t2 by (rule fin) simp
    next
      case (Done d)
      with assms sub sn pl have "snd (handler env job) = t1 @ t2 @ []"
        by (simp add: handler_def)
      then show ?thesis using t2 by (rule fin) simp
    next
      case qn: (Next h)
      show ?thesis
      proof (cases "handler_outputs cid h")
        case (Raise e)
        with assms sub sn pl qn have "snd (handler env job) = t1 @ t2 @ []"
          by (simp add: handler_def)
        then show ?thesis using t2 by (rule fin) simp
      next
        case (Done d)
        with handler_outputs_not_Done show ?thesis by blast
      next
        case on: (Next f)
        obtain r t3 where f3: "handler_finish env job ji f = (r, t3)"
          by (cases "handler_finish env job ji f")
        have t3: "filter is_post t3 = []"
          using handler_finish_no_posts[of env job ji f] f3 by simp
        from assms sub sn pl qn on f3 have "snd (handler env job) = t1 @ t2 @ t3"
          by (simp add: handler_def)
        then show ?thesis using t2 t3 by (rule fin)
      qed
    qed
  qed
qed

lemma return_error_kind:
  "is_error_envelope (return_error m)" "\<not> is_success_envelope (return_error m)"
  by (simp_all add: is_error_envelope_def is_success_envelope_def return_error_def)








section \<open>Properties of the flag lookup\<close>

lemma lower_ascii_examples:
  "lower ''True'' = ''true''" "lower ''YES'' = ''yes''" "lower '' Ok '' = '' ok ''"
  by code_simp+

lemma strip_examples:
  "strip '' ok '' = ''ok''" "strip ''yes'' = ''yes''"
  by code_simp+

text \<open>
  Claim C9. The flag lookup is true exactly when the raw value is the boolean true, or a
  string whose lowercased, then trimmed form is one of \<^verbatim>\<open>true, t, yes, y, ok, 1\<close>. An
  absent key, null, false, a number (the integer 1 too), a list and a dict all give false.
\<close>

theorem job_prop_to_bool_iff:
  "job_prop_to_bool job_input propname =
     (map_of job_input propname = Some (JBool True) \<or>
      (\<exists>s. map_of job_input propname = Some (JStr s) \<and>
           strip (lower s) \<in> {''true'', ''t'', ''yes'', ''y'', ''ok'', ''1''}))"
  by (auto simp: job_prop_to_bool_def dict_get_def true_strings_def
           split: option.splits json.splits)

section \<open>The availability check\<close>





section \<open>Waiting for the images\<close>

text \<open>
  Claim C3. When the job is valid, the submission yields a prompt id, and each of the
  \<open>COMFY_POLLING_MAX_RETRIES\<close> history replies is read without error and fails the test
  of completion (the id present with a non-empty \<^verbatim>\<open>outputs\<close>), the handler returns the
  error \<^verbatim>\<open>Max retries reached while waiting for image generation\<close>, and it has made
  exactly \<open>COMFY_POLLING_MAX_RETRIES\<close>, that is 999, history requests.
\<close>

theorem poll_budget_exhausted:
  assumes "handler_validate env job = Next (job_input, workflow)"
    and "fst (handler_submit env workflow) = Next comfy_job_id"
    and "\<forall>i<COMFY_POLLING_MAX_RETRIES. \<exists>history.
           fst (get_history env comfy_job_id i) = Inr history \<and>
           poll_check comfy_job_id history = Inr False"
  shows "fst (handler env job) =
           Inr [(''error'', JStr ''Max retries reached while waiting for image generation'')]
       \<and> length (filter is_history_get (snd (handler env job))) = COMFY_POLLING_MAX_RETRIES
       \<and> COMFY_POLLING_MAX_RETRIES = 999"
proof -
  obtain t1 where sub: "handler_submit env workflow = (Next comfy_job_id, t1)"
    using assms(2) by (cases "handler_submit env workflow") simp
  have "\<forall>i. 0 \<le> i \<and> i < COMFY_POLLING_MAX_RETRIES \<longrightarrow>
          (\<exists>h. fst (get_history env comfy_job_id i) = Inr h \<and> poll_check comfy_job_id h = Inr False)"
    using assms(3) by simp
  from poll_exhaust[OF this]
  have pl: "poll env comfy_job_id 0 =
      (Done (return_error ''Max retries reached while waiting for image generation''),
       concat (replicate COMFY_POLLING_MAX_RETRIES
                 [HistoryGet (history_url env comfy_job_id), Sleep COMFY_POLLING_INTERVAL_MS]))"
    by simp
  have h: "handler env job =
      (Inr (return_error ''Max retries reached while waiting for image generation''),
       t1 @ concat (replicate COMFY_POLLING_MAX_RETRIES
                 [HistoryGet (history_url env comfy_job_id), Sleep COMFY_POLLING_INTERVAL_MS]))"
    by (simp add: handler_def assms(1) sub pl)
  have "\<not> is_history_get ev" if "ev \<in> set t1" for ev
    using handler_submit_events[OF sub that] by auto
  then have "filter is_history_get t1 = []" by (simp add: filter_empty_conv)
  with h show ?thesis
    by (simp add: count_history_replicate return_error_def COMFY_POLLING_MAX_RETRIES_def)
qed

theorem poll_budget_exhausted_witness:
  "fst (handler stalled_env demo_job) =
     Inr [(''error'', JStr ''Max retries reached while waiting for image generation'')]
   \<and> length (filter is_history_get (snd (handler stalled_env demo_job))) = 999"
proof -
  have sub: "fst (handler_submit stalled_env demo_workflow) = Next (JStr ''abc'')"
    by (simp add: demo_submit stalled_env_def)
  have never: "\<forall>i<COMFY_POLLING_MAX_RETRIES. \<exists>history.
           fst (get_history stalled_env (JStr ''abc'') i) = Inr history \<and>
           poll_check (JStr ''abc'') history = Inr False"
    by (simp add: get_history_def Let_def stalled_env_def poll_check_def py_contains_def)
  from poll_budget_exhausted[OF demo_validate sub never] show ?thesis
    by (simp add: COMFY_POLLING_MAX_RETRIES_def)
qed

section \<open>The success result\<close>

text \<open>
  Claim C5. Once the handler has resolved the file name, let \<open>path\<close> be the output
  directory joined with it. When the file exists, the job has an \<^verbatim>\<open>id\<close>, the upload of
  \<open>path\<close> under that id returns an address, and the classifier and the reading of the
  file return where the flags call for them, the handler returns the success result made
  of: \<^verbatim>\<open>url\<close> with the address that the upload returned; \<^verbatim>\<open>nsfw\<close>, exactly when the
  flag \<^verbatim>\<open>return-nsfw\<close> of the job's input is set, with what the classifier found for
  \<open>path\<close>; \<^verbatim>\<open>base64\<close>, exactly when the flag \<^verbatim>\<open>return-b64\<close> is set and the address
  contains \<^verbatim>\<open>simulated_uploaded/\<close>, with the base64 encoding of the bytes of the file
  at \<open>path\<close>; and it has called the upload, the classifier and the reader on that path
  and in that order. Conversely every success result that the handler returns is made
  so.
\<close>

theorem success_envelope_contents:
  assumes "handler_validate env job = Next (job_input, workflow)"
    and "handler_submit env workflow = (Next comfy_job_id, t1)"
    and "poll env comfy_job_id 0 = (Next history, t2)"
    and "handler_outputs comfy_job_id history = Next output_images"
    and "path = COMFY_OUTPUT_PATH @ ''/'' @ py_str env output_images"
  shows "(\<forall>job_id image_url findings bytes.
            path_exists env path \<and> map_of job ''id'' = Some job_id \<and>
            upload_image env job_id path = Inr image_url \<and>
            (job_prop_to_bool job_input ''return-nsfw'' \<longrightarrow> detect env path = Inr findings) \<and>
            (job_prop_to_bool job_input ''return-b64'' \<and>
             str_contains ''simulated_uploaded/'' image_url \<longrightarrow>
               read_bytes env path = Inr bytes)
          \<longrightarrow> handler env job =
               (Inr ([(''url'', JStr image_url)]
                     @ (if job_prop_to_bool job_input ''return-nsfw''
                        then [(''nsfw'', findings)] else [])
                     @ (if job_prop_to_bool job_input ''return-b64'' \<and>
                           str_contains ''simulated_uploaded/'' image_url
                        then [(''base64'', JStr (b64encode bytes))] else [])),
                t1 @ t2 @ [PathExists path, Upload job_id path]
                   @ (if job_prop_to_bool job_input ''return-nsfw'' then [Detect path] else [])
                   @ (if job_prop_to_bool job_input ''return-b64'' \<and>
                         str_contains ''simulated_uploaded/'' image_url
                      then [ReadFile path] else [])))
       \<and> (\<forall>d. fst (handler env job) = Inr d \<and> is_success_envelope d \<longrightarrow>
            (\<exists>job_id image_url findings bytes.
               path_exists env path \<and> map_of job ''id'' = Some job_id \<and>
               upload_image env job_id path = Inr image_url \<and>
               (job_prop_to_bool job_input ''return-nsfw'' \<longrightarrow> detect env path = Inr findings) \<and>
               (job_prop_to_bool job_input ''return-b64'' \<and>
                str_contains ''simulated_uploaded/'' image_url \<longrightarrow>
                  read_bytes env path = Inr bytes) \<and>
               d = [(''url'', JStr image_url)]
                   @ (if job_prop_to_bool job_input ''return-nsfw''
                      then [(''nsfw'', findings)] else [])
                   @ (if job_prop_to_bool job_input ''return-b64'' \<and>
                         str_contains ''simulated_uploaded/'' image_url
                      then [(''base64'', JStr (b64encode bytes))] else [])))"
proof -
  have p: "path = local_image_path env output_images"
    by (simp add: assms(5) local_image_path_def)
  have h: "handler env job =
      (fst (handler_finish env job job_input output_images),
       t1 @ t2 @ snd (handler_finish env job job_input output_images))"
    by (cases "handler_finish env job job_input output_images")
       (simp add: handler_def assms(1-4))
  have made: "handler env job =
               (Inr ([(''url'', JStr image_url)]
                     @ (if job_prop_to_bool job_input ''return-nsfw''
                        then [(''nsfw'', findings)] else [])
                     @ (if job_prop_to_bool job_input ''return-b64'' \<and>
                           str_contains ''simulated_uploaded/'' image_url
                        then [(''base64'', JStr (b64encode bytes))] else [])),
                t1 @ t2 @ [PathExists path, Upload job_id path]
                   @ (if job_prop_to_bool job_input ''return-nsfw'' then [Detect path] else [])
                   @ (if job_prop_to_bool job_input ''return-b64'' \<and>
                         str_contains ''simulated_uploaded/'' image_url
                      then [ReadFile path] else []))"
    if "path_exists env path" "map_of job ''id'' = Some job_id"
       "upload_image env job_id path = Inr image_url"
       "job_prop_to_bool job_input ''return-nsfw'' \<longrightarrow> detect env path = Inr findings"
       "job_prop_to_bool job_input ''return-b64'' \<and>
             str_contains ''simulated_uploaded/'' image_url \<longrightarrow>
               read_bytes env path = Inr bytes"
    for job_id image_url findings bytes
    using that unfolding h p
    by (simp add: handler_finish_def Let_def dict_item_def attach_nsfw_def attach_base64_def
          detect_nudity_def base64_encode_def)
  have only: "\<exists>job_id image_url findings bytes.
               path_exists env path \<and> map_of job ''id'' = Some job_id \<and>
               upload_image env job_id path = Inr image_url \<and>
               (job_prop_to_bool job_input ''return-nsfw'' \<longrightarrow> detect env path = Inr findings) \<and>
               (job_prop_to_bool job_input ''return-b64'' \<and>
                str_contains ''simulated_uploaded/'' image_url \<longrightarrow>
                  read_bytes env path = Inr bytes) \<and>
               d = [(''url'', JStr image_url)]
                   @ (if job_prop_to_bool job_input ''return-nsfw''
                      then [(''nsfw'', findings)] else [])
                   @ (if job_prop_to_bool job_input ''return-b64'' \<and>
                         str_contains ''simulated_uploaded/'' image_url
                      then [(''base64'', JStr (b64encode bytes))] else [])"
    if d: "fst (handler env job) = Inr d" and s: "is_success_envelope d" for d
  proof -
    from d h obtain t3 where fin: "handler_finish env job job_input output_images = (Inr d, t3)"
      by (cases "handler_finish env job job_input output_images") simp
    have ex: "path_exists env (local_image_path env output_images)"
    proof (rule ccontr)
      assume "\<not> path_exists env (local_image_path env output_images)"
      from handler_finish_missing[OF this, of job job_input] fin
      have "d = return_error (''image does not exist in the specified output folder: ''
                          @ local_image_path env output_images)" by simp
      with s return_error_kind(2) show False by simp
    qed
    from handler_finish_success[OF fin ex] obtain job_id image_url nsfw_part b64_part where
      parts: "map_of job ''id'' = Some job_id"
        "upload_image env job_id path = Inr image_url"
        "d = [(''url'', JStr image_url)] @ nsfw_part @ b64_part"
        "if job_prop_to_bool job_input ''return-nsfw''
              then \<exists>findings. detect env path = Inr findings \<and> nsfw_part = [(''nsfw'', findings)]
              else nsfw_part = []"
        "if job_prop_to_bool job_input ''return-b64'' \<and> str_contains ''simulated_uploaded/'' image_url
              then \<exists>bytes. read_bytes env path = Inr bytes \<and>
                           b64_part = [(''base64'', JStr (b64encode bytes))]
              else b64_part = []"
      unfolding p by blast
    obtain findings where f: "job_prop_to_bool job_input ''return-nsfw'' \<longrightarrow>
        detect env path = Inr findings \<and> nsfw_part = [(''nsfw'', findings)]"
      using parts(4) by (cases "job_prop_to_bool job_input ''return-nsfw''") auto
    obtain bytes where b: "job_prop_to_bool job_input ''return-b64'' \<and>
        str_contains ''simulated_uploaded/'' image_url \<longrightarrow>
        read_bytes env path = Inr bytes \<and> b64_part = [(''base64'', JStr (b64encode bytes))]"
      using parts(5)
      by (cases "job_prop_to_bool job_input ''return-b64'' \<and>
                 str_contains ''simulated_uploaded/'' image_url") auto
    show ?thesis
      apply (rule exI[of _ job_id], rule exI[of _ image_url],
             rule exI[of _ findings], rule exI[of _ bytes])
      using ex parts f b unfolding p
      by (auto split: if_splits)
  qed
  from made only show ?thesis by blast
qed

theorem success_envelope_contents_witness:
  "handler demo_env demo_job =
     (Inr [(''url'', JStr ''simulated_uploaded/img1.png''), (''nsfw'', JArr []),
           (''base64'', JStr ''TWFu'')],
      [HttpGet ''http://127.0.0.1:8188'',
       HttpPost ''http://127.0.0.1:8188/prompt'' (JObj [(''prompt'', demo_workflow)]),
       HistoryGet ''http://127.0.0.1:8188/history/abc'',
       PathExists ''/comfyui/output/img1.png'',
       Upload (JStr ''j1'') ''/comfyui/output/img1.png'',
       Detect ''/comfyui/output/img1.png'',
       ReadFile ''/comfyui/output/img1.png''])"
proof -
  have sub: "handler_submit demo_env demo_workflow =
     (Next (JStr ''abc''), [HttpGet (''http://'' @ COMFY_HOST),
        HttpPost (''http://'' @ COMFY_HOST @ ''/prompt'') (JObj [(''prompt'', demo_workflow)])])"
    by (rule demo_submit) simp_all
  have pl: "poll demo_env (JStr ''abc'') 0 =
     (Next demo_history, [HistoryGet (history_url demo_env (JStr ''abc''))])"
    by (rule demo_poll) simp
  have path: "''/comfyui/output/img1.png'' =
                COMFY_OUTPUT_PATH @ ''/'' @ py_str demo_env (JStr ''img1.png'')"
    by (simp add: COMFY_OUTPUT_PATH_def py_str_def)
  have c: "path_exists demo_env ''/comfyui/output/img1.png'' \<and>
           map_of demo_job ''id'' = Some (JStr ''j1'') \<and>
           upload_image demo_env (JStr ''j1'') ''/comfyui/output/img1.png'' =
             Inr ''simulated_uploaded/img1.png'' \<and>
           (job_prop_to_bool demo_input ''return-nsfw'' \<longrightarrow>
              detect demo_env ''/comfyui/output/img1.png'' = Inr (JArr [])) \<and>
           (job_prop_to_bool demo_input ''return-b64'' \<and>
            str_contains ''simulated_uploaded/'' ''simulated_uploaded/img1.png'' \<longrightarrow>
              read_bytes demo_env ''/comfyui/output/img1.png'' = Inr ''Man'')"
    by (simp add: demo_env_def demo_job_def)
  have sim: "str_contains ''simulated_uploaded/'' ''simulated_uploaded/img1.png''" by simp
  from success_envelope_contents[OF demo_validate sub pl demo_outputs path, THEN conjunct1,
      rule_format, OF c]
  show ?thesis
    by (simp add: demo_flags sim b64_Man COMFY_HOST_def history_url_def py_str_def
          del: b64encode.simps)
qed

section \<open>The resolved file name\<close>

text \<open>
  Claim C6. When the outputs section of the polled history has the documented shape and
  reports at least one image, the file name that the handler resolves is the
  \<^verbatim>\<open>filename\<close> of the last image in the order of iteration over all nodes and all their
  images: every later image replaces the earlier one, and the result is that one value,
  not a list of them.
\<close>

theorem last_image_wins:
  assumes "py_getitem history comfy_job_id = Inr (JObj entry)"
    and "map_of entry ''outputs'' = Some (JObj nodes)"
    and "list_all (\<lambda>node. node_ok (snd node)) nodes"
    and "reported_images nodes \<noteq> []"
  shows "handler_outputs comfy_job_id history =
           Next (image_filename (last (reported_images nodes)))"
  using assms scan_nodes_ok[OF assms(3), of "JObj []"]
  by (simp add: handler_outputs_def py_get_def dict_get_def py_items_def)

theorem last_image_wins_witness:
  "list_all (\<lambda>node. node_ok (snd node)) two_nodes \<and> reported_images two_nodes \<noteq> [] \<and>
   handler_outputs (JStr ''abc'') two_node_history = Next (JStr ''c.png'')"
proof -
  have g: "py_getitem two_node_history (JStr ''abc'') = Inr (JObj [(''outputs'', JObj two_nodes)])"
    by (simp add: two_node_history_def py_getitem_def dict_item_def)
  have m: "map_of [(''outputs'', JObj two_nodes)] ''outputs'' = Some (JObj two_nodes)" by simp
  have ok: "list_all (\<lambda>node. node_ok (snd node)) two_nodes"
    by (simp add: two_nodes_def node_ok_def image_ok_def)
  have rep: "reported_images two_nodes =
      [JObj [(''filename'', JStr ''a.png'')], JObj [(''filename'', JStr ''b.png'')],
       JObj [(''filename'', JStr ''c.png'')]]"
    by (simp add: two_nodes_def reported_images_def node_images_def)
  then have ne: "reported_images two_nodes \<noteq> []" by simp
  from last_image_wins[OF g m ok ne] ok ne rep show ?thesis
    by (simp add: image_filename_def dict_get_def)
qed

text \<open>
  Claim C10. When polling ends on a history whose outputs section has the documented
  shape and reports no image at all, the resolved name is still the empty dict it
  started as, the expected path is \<^verbatim>\<open>/comfyui/output/{}\<close>, and, no file of that name
  existing, the job ends with the error that names this path after the one check of the
  path: there is no error of its own for the missing image.
\<close>

theorem no_image_outputs:
  assumes "handler_validate env job = Next (job_input, workflow)"
    and "handler_submit env workflow = (Next comfy_job_id, t1)"
    and "poll env comfy_job_id 0 = (Next history, t2)"
    and "py_getitem history comfy_job_id = Inr (JObj entry)"
    and "map_of entry ''outputs'' = Some (JObj nodes)"
    and "list_all (\<lambda>node. node_ok (snd node)) nodes"
    and "reported_images nodes = []"
    and "\<not> path_exists env ''/comfyui/output/{}''"
  shows "handler_outputs comfy_job_id history = Next (JObj [])
       \<and> local_image_path env (JObj []) = ''/comfyui/output/{}''
       \<and> handler env job =
           (Inr [(''error'', JStr
                   ''image does not exist in the specified output folder: /comfyui/output/{}'')],
            t1 @ t2 @ [PathExists ''/comfyui/output/{}''])"
proof -
  have out: "handler_outputs comfy_job_id history = Next (JObj [])"
    using assms(4,5,7) scan_nodes_ok[OF assms(6), of "JObj []"]
    by (simp add: handler_outputs_def py_get_def dict_get_def py_items_def)
  have path: "local_image_path env (JObj []) = ''/comfyui/output/{}''"
    by (simp add: local_image_path_def COMFY_OUTPUT_PATH_def py_str_def)
  with assms(8) have "\<not> path_exists env (local_image_path env (JObj []))" by simp
  from handler_finish_missing[OF this, of job job_input] path
  have "handler env job =
           (Inr [(''error'', JStr
                   ''image does not exist in the specified output folder: /comfyui/output/{}'')],
            t1 @ t2 @ [PathExists ''/comfyui/output/{}''])"
    by (simp add: handler_def assms(1-3) out return_error_def)
  with out path show ?thesis by simp
qed

theorem no_image_outputs_witness:
  "handler text_only_env demo_job =
     (Inr [(''error'', JStr
         ''image does not exist in the specified output folder: /comfyui/output/{}'')],
      [HttpGet ''http://127.0.0.1:8188'',
       HttpPost ''http://127.0.0.1:8188/prompt'' (JObj [(''prompt'', demo_workflow)]),
       HistoryGet ''http://127.0.0.1:8188/history/abc'',
       PathExists ''/comfyui/output/{}''])"
proof -
  have sub: "handler_submit text_only_env demo_workflow =
     (Next (JStr ''abc''), [HttpGet (''http://'' @ COMFY_HOST),
        HttpPost (''http://'' @ COMFY_HOST @ ''/prompt'') (JObj [(''prompt'', demo_workflow)])])"
    by (rule demo_submit) (simp_all add: text_only_env_def)
  have chk: "poll_check (JStr ''abc'') text_only_history = Inr True"
    by (simp add: poll_check_def text_only_history_def py_contains_def py_getitem_def py_get_def
          dict_item_def dict_get_def)
  have pl: "poll text_only_env (JStr ''abc'') 0 =
     (Next text_only_history, [HistoryGet (history_url text_only_env (JStr ''abc''))])"
    by (rule poll_first) (simp_all add: chk get_history_def Let_def text_only_env_def)
  have g: "py_getitem text_only_history (JStr ''abc'') =
      Inr (JObj [(''outputs'', JObj [(''9'', JObj [(''text'', JArr [JStr ''done''])])])])"
    by (simp add: text_only_history_def py_getitem_def dict_item_def)
  have m: "map_of [(''outputs'', JObj [(''9'', JObj [(''text'', JArr [JStr ''done''])])])] ''outputs''
      = Some (JObj [(''9'', JObj [(''text'', JArr [JStr ''done''])])])" by simp
  have ok: "list_all (\<lambda>node. node_ok (snd node)) [(''9'', JObj [(''text'', JArr [JStr ''done''])])]"
    by (simp add: node_ok_def)
  have none: "reported_images [(''9'', JObj [(''text'', JArr [JStr ''done''])])] = []"
    by (simp add: reported_images_def node_images_def)
  have no: "\<not> path_exists text_only_env ''/comfyui/output/{}''"
    by (simp add: text_only_env_def)
  from no_image_outputs[OF demo_validate sub pl g m ok none no] show ?thesis
    by (simp add: COMFY_HOST_def history_url_def py_str_def)
qed

section \<open>The submission\<close>

text \<open>
  Claim C7. For every job that passes validation, the availability check returns true or
  false without raising, and whichever it is the handler posts the workflow exactly once,
  under the single key \<^verbatim>\<open>prompt\<close>; an exception of the submission, or of reading
  \<^verbatim>\<open>prompt_id\<close> from the reply, ends the job with the error
  \<^verbatim>\<open>Error queuing prompt: \<close> followed by the text of that exception, and there is no
  second post.
\<close>

theorem submit_exactly_once:
  assumes "handler_validate env job = Next (job_input, workflow)"
  shows "(\<exists>reachable. fst (check_server (engine_get env) (''http://'' @ COMFY_HOST)
            COMFY_API_AVAILABLE_MAX_RETRIES COMFY_API_AVAILABLE_INTERVAL_MS) = Inr reachable)
     \<and> filter is_post (snd (handler env job)) =
         [HttpPost (''http://'' @ COMFY_HOST @ ''/prompt'') (JObj [(''prompt'', workflow)])]
     \<and> (\<forall>e. post_prompt env (JObj [(''prompt'', workflow)]) = Inl e \<longrightarrow>
            fst (handler env job) =
              Inr [(''error'', JStr (''Error queuing prompt: '' @ str_exc env e))])
     \<and> (\<forall>queued e. post_prompt env (JObj [(''prompt'', workflow)]) = Inr queued \<and>
            py_getitem queued (JStr ''prompt_id'') = Inl e \<longrightarrow>
            fst (handler env job) =
              Inr [(''error'', JStr (''Error queuing prompt: '' @ str_exc env e))])"
proof -
  obtain reachable tc where cs: "check_server (engine_get env) (''http://'' @ COMFY_HOST)
      COMFY_API_AVAILABLE_MAX_RETRIES COMFY_API_AVAILABLE_INTERVAL_MS = (Inr reachable, tc)"
    using check_server_handler_returns[of env "''http://'' @ COMFY_HOST"]
    by (cases "check_server (engine_get env) (''http://'' @ COMFY_HOST)
      COMFY_API_AVAILABLE_MAX_RETRIES COMFY_API_AVAILABLE_INTERVAL_MS") auto
  have probe: "\<exists>reachable. fst (check_server (engine_get env) (''http://'' @ COMFY_HOST)
            COMFY_API_AVAILABLE_MAX_RETRIES COMFY_API_AVAILABLE_INTERVAL_MS) = Inr reachable"
    by (rule check_server_handler_returns)
  from handler_trace[OF assms] obtain t2 t3 where
    "snd (handler env job) = snd (handler_submit env workflow) @ t2 @ t3"
    "filter is_post t2 = []" "filter is_post t3 = []" by blast
  then have once: "filter is_post (snd (handler env job)) =
         [HttpPost (''http://'' @ COMFY_HOST @ ''/prompt'') (JObj [(''prompt'', workflow)])]"
    by (simp add: handler_submit_posts)
  have fail1: "fst (handler env job) =
              Inr [(''error'', JStr (''Error queuing prompt: '' @ str_exc env e))]"
    if "post_prompt env (JObj [(''prompt'', workflow)]) = Inl e" for e
    using that assms cs
    by (simp add: handler_def handler_submit_def queue_workflow_def Let_def return_error_def)
  have fail2: "fst (handler env job) =
              Inr [(''error'', JStr (''Error queuing prompt: '' @ str_exc env e))]"
    if "post_prompt env (JObj [(''prompt'', workflow)]) = Inr queued"
       "py_getitem queued (JStr ''prompt_id'') = Inl e" for queued e
    using that assms cs
    by (simp add: handler_def handler_submit_def queue_workflow_def Let_def return_error_def)
  from probe once fail1 fail2 show ?thesis by blast
qed

theorem submit_exactly_once_witness:
  "fst (handler refused_env demo_job) =
     Inr [(''error'', JStr ''Error queuing prompt: failure'')] \<and>
   filter is_post (snd (handler refused_env demo_job)) =
     [HttpPost ''http://127.0.0.1:8188/prompt'' (JObj [(''prompt'', demo_workflow)])]"
proof -
  have p: "post_prompt refused_env (JObj [(''prompt'', demo_workflow)]) =
             Inl (Failure ''connection refused'')"
    by (simp add: refused_env_def)
  have s: "str_exc refused_env (Failure ''connection refused'') = ''failure''"
    by (simp add: refused_env_def demo_env_def)
  from submit_exactly_once[OF demo_validate, of refused_env] p s show ?thesis
    by (simp add: COMFY_HOST_def)
qed

section \<open>The missing file\<close>

text \<open>
  Claim C8. When the resolved file does not exist, the handler returns the error whose
  message ends with the expected path, the output directory joined by \<^verbatim>\<open>/\<close> with the
  resolved name; the check of the path is the last thing it does, and it attempts no
  upload, no classification and no encoding.
\<close>

theorem artifact_missing:
  assumes "handler_validate env job = Next (job_input, workflow)"
    and "handler_submit env workflow = (Next comfy_job_id, t1)"
    and "poll env comfy_job_id 0 = (Next history, t2)"
    and "handler_outputs comfy_job_id history = Next output_images"
    and "\<not> path_exists env (COMFY_OUTPUT_PATH @ ''/'' @ py_str env output_images)"
  shows "handler env job =
           (Inr [(''error'', JStr (''image does not exist in the specified output folder: ''
                    @ COMFY_OUTPUT_PATH @ ''/'' @ py_str env output_images))],
            t1 @ t2 @ [PathExists (COMFY_OUTPUT_PATH @ ''/'' @ py_str env output_images)])
       \<and> filter is_post_processing (snd (handler env job)) = []"
proof -
  from assms(5) have "\<not> path_exists env (local_image_path env output_images)"
    by (simp add: local_image_path_def)
  from handler_finish_missing[OF this, of job job_input]
  have h: "handler env job =
           (Inr [(''error'', JStr (''image does not exist in the specified output folder: ''
                    @ COMFY_OUTPUT_PATH @ ''/'' @ py_str env output_images))],
            t1 @ t2 @ [PathExists (COMFY_OUTPUT_PATH @ ''/'' @ py_str env output_images)])"
    by (simp add: handler_def assms(1-4) return_error_def local_image_path_def)
  have "filter is_post_processing t1 = []"
    using handler_submit_no_post_processing[of env workflow] assms(2) by simp
  moreover have "filter is_post_processing t2 = []"
    using poll_no_post_processing[of env comfy_job_id 0] assms(3) by simp
  ultimately show ?thesis using h by simp
qed

theorem artifact_missing_witness:
  "handler missing_env demo_job =
     (Inr [(''error'', JStr
         ''image does not exist in the specified output folder: /comfyui/output/img1.png'')],
      [HttpGet ''http://127.0.0.1:8188'',
       HttpPost ''http://127.0.0.1:8188/prompt'' (JObj [(''prompt'', demo_workflow)]),
       HistoryGet ''http://127.0.0.1:8188/history/abc'',
       PathExists ''/comfyui/output/img1.png''])"
proof -
  have sub: "handler_submit missing_env demo_workflow =
     (Next (JStr ''abc''), [HttpGet (''http://'' @ COMFY_HOST),
        HttpPost (''http://'' @ COMFY_HOST @ ''/prompt'') (JObj [(''prompt'', demo_workflow)])])"
    by (rule demo_submit) (simp_all add: missing_env_def)
  have pl: "poll missing_env (JStr ''abc'') 0 =
     (Next demo_history, [HistoryGet (history_url missing_env (JStr ''abc''))])"
    by (rule demo_poll) (simp add: missing_env_def)
  have no: "\<not> path_exists missing_env (COMFY_OUTPUT_PATH @ ''/'' @ py_str missing_env (JStr ''img1.png''))"
    by (simp add: missing_env_def)
  from artifact_missing[OF demo_validate sub pl demo_outputs no] show ?thesis
    by (simp add: COMFY_HOST_def COMFY_OUTPUT_PATH_def py_str_def history_url_def)
qed

section \<open>A job without input\<close>

text \<open>
  Claim C2, at a job that has no \<^verbatim>\<open>input\<close> key: \<^verbatim>\<open>job["input"]\<close> raises
  \<^verbatim>\<open>KeyError\<close> before any check, so no error result is returned; no request has been
  made.
\<close>

theorem missing_input_key_raises:
  "handler env [(''id'', JStr ''job-1'')] = (Inl (KeyError (JStr ''input'')), [])"
  by (simp add: handler_def handler_validate_def dict_item_def)

section \<open>The result of the handler\<close>




section \<open>Rejected inputs\<close>

text \<open>
  For a job that has an \<^verbatim>\<open>input\<close> key, each rejected input ends the job with its error
  result before anything is requested: a null input, an absent or null workflow, a
  workflow string on which \<^verbatim>\<open>json.loads\<close> raises \<^verbatim>\<open>JSONDecodeError\<close>, and a workflow
  that is not a dict after decoding.
\<close>

theorem input_errors_make_no_request:
  assumes "map_of job ''input'' = Some v"
  shows "(v = JNull \<longrightarrow>
            handler env job =
              (Inr [(''error'', JStr ''no 'input' property found on job data'')], []))
       \<and> (\<forall>ji. v = JObj ji \<and> dict_get ji ''workflow'' = JNull \<longrightarrow>
            handler env job =
              (Inr [(''error'', JStr ''no 'workflow' property found on job data'')], []))
       \<and> (\<forall>ji s. v = JObj ji \<and> map_of ji ''workflow'' = Some (JStr s) \<and>
                  json_loads env s = Inl JSONDecodeError \<longrightarrow>
            handler env job =
              (Inr [(''error'', JStr ''Invalid JSON format in 'workflow' data'')], []))
       \<and> (\<forall>ji s w. v = JObj ji \<and> map_of ji ''workflow'' = Some (JStr s) \<and>
                  json_loads env s = Inr w \<and> (\<forall>d. w \<noteq> JObj d) \<longrightarrow>
            handler env job =
              (Inr [(''error'', JStr (CHR 0x27 #
                 ''workflow' must be a JSON object or JSON-encoded string''))], []))
       \<and> (\<forall>ji w. v = JObj ji \<and> map_of ji ''workflow'' = Some w \<and> w \<noteq> JNull \<and>
                  (\<forall>s. w \<noteq> JStr s) \<and> (\<forall>d. w \<noteq> JObj d) \<longrightarrow>
            handler env job =
              (Inr [(''error'', JStr (CHR 0x27 #
                 ''workflow' must be a JSON object or JSON-encoded string''))], []))"
  using assms
  by (auto simp: handler_def handler_validate_def dict_item_def dict_get_def return_error_def
           split: json.splits option.splits)

theorem input_errors_make_no_request_witness:
  "handler demo_env not_json_job =
     (Inr [(''error'', JStr ''Invalid JSON format in 'workflow' data'')], [])"
proof -
  have i: "map_of not_json_job ''input'' = Some (JObj [(''workflow'', JStr ''not json'')])"
    by (simp add: not_json_job_def)
  have l: "json_loads demo_env ''not json'' = Inl JSONDecodeError" by (simp add: demo_env_def)
  from input_errors_make_no_request[OF i, of demo_env] l show ?thesis
    by simp
qed

end
